theory Spec2Isabelle
  imports Main "HOL-Library.Multiset"
begin

section \<open>Values, exceptions and observable effects\<close>

text \<open>
  The service is a FastAPI application. Its modules keep two pieces of mutable state:
  \<^verbatim>\<open>database.pool\<close> and \<^verbatim>\<open>main._background_tasks\<close>. Everything else the code does
  is an interaction with a collaborator: the PostgreSQL driver (asyncpg), the metrics
  registry (prometheus_client), the event loop. The model threads the module state
  through every function and appends each interaction to a trace, oldest first.
  Calls of \<^verbatim>\<open>logger\<close> write to the server log only and are left out of the trace.

  Python strings are modelled as \<^typ>\<open>string\<close>, a character being a code point
  below 256 (the Latin-1 range of \<^verbatim>\<open>str\<close>).
\<close>

datatype py_error =
    NameError string
  | ValueError string
  | RuntimeError string
  | IndexError string
  | KeyError string
  | HTTPException nat
  | DbError string
  | ResponseError string
  | CancelledError

text \<open>
  \<^verbatim>\<open>except Exception\<close> catches every exception of the model but
  \<^verbatim>\<open>asyncio.CancelledError\<close>, which derives from \<^verbatim>\<open>BaseException\<close>.
  \<^verbatim>\<open>HTTPException n\<close> carries the status code only; the detail text is not modelled.
\<close>

fun is_Exception :: "py_error \<Rightarrow> bool" where
  "is_Exception CancelledError = False"
| "is_Exception e = True"

fun is_HTTPException :: "py_error \<Rightarrow> bool" where
  "is_HTTPException (HTTPException n) = True"
| "is_HTTPException e = False"

datatype label_value = LStr string | LInt nat

datatype db_val = VNull | VInt int | VStr string

type_synonym row = "(string \<times> db_val) list"

record pool_obj =
  pool_id :: nat
  holders :: nat

datatype effect =
    CreatePool
  | Probe pool_obj
  | Sleep int
  | PoolClose pool_obj
  | PoolOp string pool_obj string "db_val list"
  | CounterInc string "(string \<times> label_value) list"
  | HistObserve string "(string \<times> label_value) list" int
  | GaugeSet string int
  | TaskCreate string
  | TaskCancel nat
  | TaskAwait nat

text \<open>
  A background task of \<^verbatim>\<open>main._background_tasks\<close>: \<open>task_failed\<close> is the exception the
  task has already ended with, or \<open>None\<close> while its coroutine is still running
  (\<^verbatim>\<open>collect_cpu_percent\<close> loops forever, so it never ends normally).
\<close>

record task =
  task_id :: nat
  task_name :: string
  task_failed :: "py_error option"

record state =
  pool :: "pool_obj option"
  background_tasks :: "task list"
  trace :: "effect list"

type_synonym 'a action = "state \<Rightarrow> (py_error + 'a) \<times> state"

definition emit :: "effect list \<Rightarrow> state \<Rightarrow> state" where
  "emit es st = st\<lparr>trace := trace st @ es\<rparr>"

subsection \<open>The collaborators\<close>

text \<open>
  What the outside world answers is an input of the model. Each answer may depend on
  everything that has happened so far, so an oracle is a function of the trace.
  \<open>env_db_port\<close> and \<open>env_db_max_connections\<close> are the results of
  \<^verbatim>\<open>int(os.getenv(...))\<close>, \<open>None\<close> when \<^verbatim>\<open>int\<close> raises \<^verbatim>\<open>ValueError\<close>.
  A failure of the driver is an exception of class \<^verbatim>\<open>Exception\<close>, named by a string.
  \<open>perf_counter\<close> and \<open>now\<close> are the clocks \<^verbatim>\<open>time.perf_counter()\<close> and
  \<^verbatim>\<open>datetime.now()\<close>, read in ticks. \<open>response_model_error\<close> is the exception, if any, of
  building \<^verbatim>\<open>DataItemResponse\<close> from the inserted row (lines 108 to 114 of api.py: a
  missing column or a pydantic validation error). \<open>parse_item_id\<close> is FastAPI's
  conversion of the path parameter to \<^verbatim>\<open>int\<close>, and \<open>unrouted_status\<close> the status of the
  response the framework itself gives a request that none of the routes below takes.
\<close>

record data_item_create =
  item_name :: string
  item_email :: string
  item_message :: "string option"

text \<open>
  An inbound HTTP request as the middleware and the handlers read it: \<open>scope_path\<close> is
  \<^verbatim>\<open>request.scope.get("path")\<close>, the raw path of the request line, \<open>None\<close> for a scope
  without that key; \<open>url_path\<close> is the path of \<^verbatim>\<open>request.url\<close> when the URL can be built;
  \<open>json_body\<close> is the request body after FastAPI has validated it against
  \<^verbatim>\<open>DataItemCreate\<close>, \<open>None\<close> when validation fails.
\<close>

record request =
  http_method :: string
  scope_path :: "string option"
  url_path :: string
  json_body :: "data_item_create option"

datatype attempt_outcome =
    CreateFails string
  | ProbeFails pool_obj string
  | Connected pool_obj

record world =
  env_db_port :: "int option"
  env_db_max_connections :: "int option"
  connect :: "effect list \<Rightarrow> attempt_outcome"
  close_result :: "effect list \<Rightarrow> string option"
  fetch_result :: "effect list \<Rightarrow> string + row list"
  fetchrow_result :: "effect list \<Rightarrow> string + row option"
  execute_result :: "effect list \<Rightarrow> string + string"
  perf_counter :: "effect list \<Rightarrow> int"
  now :: "effect list \<Rightarrow> int"
  response_model_error :: "data_item_create \<Rightarrow> row \<Rightarrow> string option"
  parse_item_id :: "string \<Rightarrow> int option"
  unrouted_status :: "request \<Rightarrow> nat"

text \<open>
  The names bound at module level. A function body looks a global name up when the
  line runs, and a name that no import or assignment of the module binds raises
  \<^verbatim>\<open>NameError\<close>. \<open>init_db\<close> and \<open>startup\<close> take the namespace of their module as an
  argument and check the lookups of the module names \<^verbatim>\<open>os\<close>, \<^verbatim>\<open>logging\<close> and \<^verbatim>\<open>asyncio\<close>;
  every other global name the modelled functions use is bound in its file.
  \<open>database_py\<close> and \<open>main_py\<close> list what the import statements and top-level
  definitions of the two files bind.
\<close>

type_synonym namespace = "string list"

definition bound :: "namespace \<Rightarrow> string \<Rightarrow> bool" where
  "bound ns x = (x \<in> set ns)"

definition database_py :: namespace where
  "database_py =
     [''annotations'', ''os'', ''time'', ''Any'', ''Iterable'', ''Optional'', ''TypeVar'',
      ''Callable'', ''Awaitable'', ''cast'', ''asyncpg'', ''Pool'',
      ''db_query_duration_seconds'', ''db_operations_total'', ''db_connections_active'',
      ''T'', ''pool'', ''ACTION_STATUS_SUCCESS'', ''ACTION_STATUS_ERROR'',
      ''init_db'', ''close_db'', ''_instrument_db_call'', ''fetch'', ''fetchrow'',
      ''execute'', ''execute_returning'']"

definition main_py :: namespace where
  "main_py =
     [''annotations'', ''asyncio'', ''logging'', ''suppress'', ''List'', ''FastAPI'',
      ''Request'', ''Response'', ''PlainTextResponse'', ''CONTENT_TYPE_LATEST'',
      ''generate_latest'', ''MetricsMiddleware'', ''REGISTRY'', ''collect_cpu_percent'',
      ''health_router'', ''init_db'', ''api'', ''logger'', ''app'', ''metrics'', ''root'',
      ''_background_tasks'', ''_startup'', ''_shutdown'']"

subsection \<open>Control flow\<close>

definition try_except ::
  "'a action \<Rightarrow> (py_error \<Rightarrow> bool) \<Rightarrow> (py_error \<Rightarrow> 'a action) \<Rightarrow> 'a action" where
  "try_except body catches handler st =
     (case body st of
        (Inl e, st') \<Rightarrow> if catches e then handler e st' else (Inl e, st')
      | (Inr x, st') \<Rightarrow> (Inr x, st'))"

text \<open>An exception raised by the \<^verbatim>\<open>finally\<close> block replaces the outcome of the body.\<close>

definition try_finally :: "'a action \<Rightarrow> unit action \<Rightarrow> 'a action" where
  "try_finally body fin st =
     (case body st of
        (r, st') \<Rightarrow>
          (case fin st' of
             (Inl e, st'') \<Rightarrow> (Inl e, st'')
           | (Inr u, st'') \<Rightarrow> (r, st'')))"

definition and_then :: "'a action \<Rightarrow> ('a \<Rightarrow> 'b action) \<Rightarrow> 'b action" where
  "and_then m f st =
     (case m st of
        (Inl e, st') \<Rightarrow> (Inl e, st')
      | (Inr x, st') \<Rightarrow> f x st')"

definition return :: "'a \<Rightarrow> 'a action" where
  "return x st = (Inr x, st)"

definition raise :: "py_error \<Rightarrow> 'a action" where
  "raise e st = (Inl e, st)"

subsection \<open>The metrics registry\<close>

text \<open>
  The metric objects are declared in \<^verbatim>\<open>app/metrics/__init__.py\<close>. The label names of
  each declaration are a parameter of the model. \<^verbatim>\<open>metric.labels(**kwargs)\<close> of
  prometheus_client raises \<^verbatim>\<open>ValueError\<close> unless the sorted keyword names equal the
  sorted declared names; only then does \<^verbatim>\<open>inc\<close> or \<^verbatim>\<open>observe\<close> run. The two gauges
  are used without labels.
\<close>

record metrics_decl =
  http_requests_total_labelnames :: "string list"
  http_request_duration_seconds_labelnames :: "string list"
  db_operations_total_labelnames :: "string list"
  db_query_duration_seconds_labelnames :: "string list"

definition labels_accepted :: "string list \<Rightarrow> (string \<times> label_value) list \<Rightarrow> bool" where
  "labels_accepted declared kwargs = (mset (map fst kwargs) = mset declared)"

definition counter_inc ::
  "string \<Rightarrow> string list \<Rightarrow> (string \<times> label_value) list \<Rightarrow> unit action" where
  "counter_inc name declared kwargs st =
     (if labels_accepted declared kwargs
      then (Inr (), emit [CounterInc name kwargs] st)
      else (Inl (ValueError ''Incorrect label names''), st))"

definition histogram_observe ::
  "string \<Rightarrow> string list \<Rightarrow> (string \<times> label_value) list \<Rightarrow> int \<Rightarrow> unit action" where
  "histogram_observe name declared kwargs v st =
     (if labels_accepted declared kwargs
      then (Inr (), emit [HistObserve name kwargs v] st)
      else (Inl (ValueError ''Incorrect label names''), st))"

definition gauge_set :: "string \<Rightarrow> int \<Rightarrow> unit action" where
  "gauge_set name v st = (Inr (), emit [GaugeSet name v] st)"

section \<open>database.py\<close>

subsection \<open>init_db and close_db\<close>

text \<open>
  One pass of the loop body's \<^verbatim>\<open>try\<close> block (lines 66 to 91): \<^verbatim>\<open>create_pool\<close> assigns
  the global \<^verbatim>\<open>pool\<close> as soon as it returns, before the probe \<^verbatim>\<open>SELECT 1\<close> runs.
  The result is the exception the block raised, if any.
\<close>

definition attempt_connect :: "world \<Rightarrow> state \<Rightarrow> py_error option \<times> state" where
  "attempt_connect w st =
     (case connect w (trace st) of
        CreateFails m \<Rightarrow> (Some (DbError m), emit [CreatePool] st)
      | ProbeFails p m \<Rightarrow> (Some (DbError m), (emit [CreatePool, Probe p] st)\<lparr>pool := Some p\<rparr>)
      | Connected p \<Rightarrow>
          (None, (emit [CreatePool, Probe p,
                        GaugeSet ''db_connections_active'' (int (holders p))] st)
                   \<lparr>pool := Some p\<rparr>))"

text \<open>
  \<^verbatim>\<open>for attempt in range(1, max_retries + 1)\<close> with the local \<^verbatim>\<open>retry_delay\<close>. The
  handler sleeps and doubles the delay while \<^verbatim>\<open>attempt < max_retries\<close> and re-raises
  otherwise; \<^verbatim>\<open>asyncio\<close> is looked up when the sleep is reached.
\<close>

function init_db_loop ::
  "namespace \<Rightarrow> world \<Rightarrow> nat \<Rightarrow> nat \<Rightarrow> int \<Rightarrow> unit action" where
  "init_db_loop ns w max_retries attempt retry_delay st =
     (if max_retries < attempt then (Inr (), st)
      else
        (case attempt_connect w st of
           (None, st') \<Rightarrow> (Inr (), st')
         | (Some e, st') \<Rightarrow>
             if attempt < max_retries then
               (if \<not> bound ns ''asyncio'' then (Inl (NameError ''asyncio''), st')
                else init_db_loop ns w max_retries (attempt + 1) (retry_delay * 2)
                       (emit [Sleep retry_delay] st'))
             else (Inl e, st')))"
  by pat_completeness auto
termination
  by (relation "measure (\<lambda>(ns, w, max_retries, attempt, retry_delay, st).
                           Suc max_retries - attempt)") auto

declare init_db_loop.simps [simp del]

definition init_db :: "namespace \<Rightarrow> world \<Rightarrow> unit action" where
  "init_db ns w st =
     (if pool st \<noteq> None then (Inr (), st)
      else if \<not> bound ns ''os'' then (Inl (NameError ''os''), st)
      else if env_db_port w = None then (Inl (ValueError ''DB_PORT''), st)
      else if env_db_max_connections w = None
        then (Inl (ValueError ''DB_MAX_CONNECTIONS''), st)
      else if \<not> bound ns ''logging'' then (Inl (NameError ''logging''), st)
      else init_db_loop ns w 5 1 2 st)"

definition close_db :: "world \<Rightarrow> unit action" where
  "close_db w st =
     (case pool st of
        None \<Rightarrow> (Inr (), st)
      | Some p \<Rightarrow>
          (case close_result w (trace st) of
             Some m \<Rightarrow> (Inl (DbError m), emit [PoolClose p] st)
           | None \<Rightarrow> (Inr (), (emit [PoolClose p] st)\<lparr>pool := None\<rparr>)))"

subsection \<open>Text of a query\<close>

text \<open>
  \<^verbatim>\<open>str.split()\<close> without arguments cuts the text at runs of whitespace and yields no
  empty token; \<^verbatim>\<open>str.isspace\<close> and \<^verbatim>\<open>str.lower\<close> are given on the code points below 256.
  \<open>split_scan\<close> scans the text once, holding the token read so far.
\<close>

definition py_isspace :: "char \<Rightarrow> bool" where
  "py_isspace c = ((of_char c :: nat) \<in> set [9, 10, 11, 12, 13, 28, 29, 30, 31, 32, 133, 160])"

definition lower_char :: "char \<Rightarrow> char" where
  "lower_char c =
     (let n = (of_char c :: nat) in
      if (65 \<le> n \<and> n \<le> 90) \<or> (192 \<le> n \<and> n \<le> 222 \<and> n \<noteq> 215)
      then char_of (n + 32) else c)"

definition py_lower :: "string \<Rightarrow> string" where
  "py_lower s = map lower_char s"

fun split_scan :: "string \<Rightarrow> string \<Rightarrow> string list" where
  "split_scan cur [] = (if cur = [] then [] else [cur])"
| "split_scan cur (c # cs) =
     (if py_isspace c
      then (if cur = [] then split_scan [] cs else cur # split_scan [] cs)
      else split_scan (cur @ [c]) cs)"

definition py_split :: "string \<Rightarrow> string list" where
  "py_split s = split_scan [] s"

text \<open>Line 191: \<^verbatim>\<open>operation = query.split()[0].lower()\<close>.\<close>

definition infer_operation :: "string \<Rightarrow> py_error + string" where
  "infer_operation query =
     (case py_split query of
        [] \<Rightarrow> Inl (IndexError ''list index out of range'')
      | tok # rest \<Rightarrow> Inr (py_lower tok))"

subsection \<open>The instrumented query executor\<close>

definition pool_fetch :: "world \<Rightarrow> pool_obj \<Rightarrow> string \<Rightarrow> db_val list \<Rightarrow> (row list) action" where
  "pool_fetch w p query args st =
     (case fetch_result w (trace st) of
        Inl m \<Rightarrow> (Inl (DbError m), emit [PoolOp ''fetch'' p query args] st)
      | Inr rows \<Rightarrow> (Inr rows, emit [PoolOp ''fetch'' p query args] st))"

definition pool_fetchrow ::
  "world \<Rightarrow> pool_obj \<Rightarrow> string \<Rightarrow> db_val list \<Rightarrow> (row option) action" where
  "pool_fetchrow w p query args st =
     (case fetchrow_result w (trace st) of
        Inl m \<Rightarrow> (Inl (DbError m), emit [PoolOp ''fetchrow'' p query args] st)
      | Inr r \<Rightarrow> (Inr r, emit [PoolOp ''fetchrow'' p query args] st))"

definition pool_execute :: "world \<Rightarrow> pool_obj \<Rightarrow> string \<Rightarrow> db_val list \<Rightarrow> string action" where
  "pool_execute w p query args st =
     (case execute_result w (trace st) of
        Inl m \<Rightarrow> (Inl (DbError m), emit [PoolOp ''execute'' p query args] st)
      | Inr status \<Rightarrow> (Inr status, emit [PoolOp ''execute'' p query args] st))"

text \<open>
  The \<^verbatim>\<open>finally\<close> block of \<^verbatim>\<open>_instrument_db_call\<close>: the duration is observed, then the
  gauge is set when the global \<^verbatim>\<open>pool\<close> is still there.
\<close>

definition record_db_call :: "metrics_decl \<Rightarrow> world \<Rightarrow> string \<Rightarrow> int \<Rightarrow> unit action" where
  "record_db_call D w operation start_time st =
     and_then
       (histogram_observe ''db_query_duration_seconds'' (db_query_duration_seconds_labelnames D)
          [(''operation'', LStr operation)] (perf_counter w (trace st) - start_time))
       (\<lambda>u s. case pool s of
                 None \<Rightarrow> (Inr (), s)
               | Some p \<Rightarrow> gauge_set ''db_connections_active'' (int (holders p)) s)
       st"

definition instrument_db_call ::
  "metrics_decl \<Rightarrow> world \<Rightarrow> string \<Rightarrow> 'a action \<Rightarrow> 'a action" where
  "instrument_db_call D w operation func st =
     (if pool st = None then (Inl (RuntimeError ''Database pool not initialized''), st)
      else
        try_finally
          (try_except
             (and_then func
                (\<lambda>result.
                   and_then
                     (counter_inc ''db_operations_total'' (db_operations_total_labelnames D)
                        [(''operation'', LStr operation), (''status'', LStr ''success'')])
                     (\<lambda>u. return result)))
             is_Exception
             (\<lambda>e. and_then
                     (counter_inc ''db_operations_total'' (db_operations_total_labelnames D)
                        [(''operation'', LStr operation), (''status'', LStr ''error'')])
                     (\<lambda>u. raise e)))
          (record_db_call D w operation (perf_counter w (trace st)))
          st)"

text \<open>
  \<^verbatim>\<open>dict(row) if row else None\<close>: a record without columns is falsy, like \<^verbatim>\<open>None\<close>.
  A row of the model is already a list of columns and values.
\<close>

definition row_dict :: "row option \<Rightarrow> row option" where
  "row_dict r = (case r of None \<Rightarrow> None | Some cols \<Rightarrow> if cols = [] then None else Some cols)"

definition fetch :: "metrics_decl \<Rightarrow> world \<Rightarrow> string \<Rightarrow> db_val list \<Rightarrow> (row list) action" where
  "fetch D w query args st =
     (case pool st of
        None \<Rightarrow> (Inl (RuntimeError ''Database pool not initialized''), st)
      | Some p \<Rightarrow> instrument_db_call D w ''select'' (pool_fetch w p query args) st)"

definition fetchrow ::
  "metrics_decl \<Rightarrow> world \<Rightarrow> string \<Rightarrow> db_val list \<Rightarrow> (row option) action" where
  "fetchrow D w query args st =
     (case pool st of
        None \<Rightarrow> (Inl (RuntimeError ''Database pool not initialized''), st)
      | Some p \<Rightarrow>
          and_then (instrument_db_call D w ''select'' (pool_fetchrow w p query args))
            (\<lambda>r. return (row_dict r)) st)"

definition execute :: "metrics_decl \<Rightarrow> world \<Rightarrow> string \<Rightarrow> db_val list \<Rightarrow> string action" where
  "execute D w query args st =
     (case pool st of
        None \<Rightarrow> (Inl (RuntimeError ''Database pool not initialized''), st)
      | Some p \<Rightarrow>
          (case infer_operation query of
             Inl e \<Rightarrow> (Inl e, st)
           | Inr operation \<Rightarrow>
               instrument_db_call D w operation (pool_execute w p query args) st))"

definition execute_returning ::
  "metrics_decl \<Rightarrow> world \<Rightarrow> string \<Rightarrow> db_val list \<Rightarrow> (row option) action" where
  "execute_returning D w query args st =
     (case pool st of
        None \<Rightarrow> (Inl (RuntimeError ''Database pool not initialized''), st)
      | Some p \<Rightarrow>
          and_then (instrument_db_call D w ''modify'' (pool_fetchrow w p query args))
            (\<lambda>r. return (row_dict r)) st)"

section \<open>main.py\<close>

text \<open>
  The retry loop of \<^verbatim>\<open>_startup\<close> (lines 75 to 88): \<^verbatim>\<open>break\<close> when \<^verbatim>\<open>init_db\<close> returns,
  re-raise at the last attempt, otherwise sleep and double the delay up to 10 seconds.
\<close>

function startup_loop ::
  "namespace \<Rightarrow> namespace \<Rightarrow> world \<Rightarrow> nat \<Rightarrow> nat \<Rightarrow> int \<Rightarrow> unit action" where
  "startup_loop nm nd w max_retries attempt retry_delay st =
     (if max_retries < attempt then (Inr (), st)
      else
        (case init_db nd w st of
           (Inr u, st') \<Rightarrow> (Inr (), st')
         | (Inl e, st') \<Rightarrow>
             if \<not> is_Exception e then (Inl e, st')
             else if attempt = max_retries then (Inl e, st')
             else if \<not> bound nm ''asyncio'' then (Inl (NameError ''asyncio''), st')
             else startup_loop nm nd w max_retries (attempt + 1) (min (retry_delay * 2) 10)
                    (emit [Sleep retry_delay] st')))"
  by pat_completeness auto
termination
  by (relation "measure (\<lambda>(nm, nd, w, max_retries, attempt, retry_delay, st).
                           Suc max_retries - attempt)") auto

declare startup_loop.simps [simp del]

definition create_task :: "string \<Rightarrow> unit action" where
  "create_task name st =
     (Inr (), (emit [TaskCreate name] st)
                \<lparr>background_tasks := background_tasks st @
                   [\<lparr>task_id = length (background_tasks st), task_name = name,
                     task_failed = None\<rparr>]\<rparr>)"

text \<open>
  \<^verbatim>\<open>_startup\<close>: line 62 looks \<^verbatim>\<open>logging\<close> up; everything after it is inside \<^verbatim>\<open>try\<close>,
  and the handler of \<^verbatim>\<open>except Exception\<close> logs and returns. Line 67 looks \<^verbatim>\<open>os\<close> up.
\<close>

definition startup :: "namespace \<Rightarrow> namespace \<Rightarrow> world \<Rightarrow> unit action" where
  "startup nm nd w st =
     (if \<not> bound nm ''logging'' then (Inl (NameError ''logging''), st)
      else
        try_except
          (\<lambda>s. if \<not> bound nm ''os'' then (Inl (NameError ''os''), s)
                else and_then (startup_loop nm nd w 5 1 1)
                       (\<lambda>u. create_task ''collect_cpu_percent'') s)
          is_Exception
          (\<lambda>e. return ())
          st)"

text \<open>
  \<^verbatim>\<open>_shutdown\<close>: each task is cancelled and awaited under
  \<^verbatim>\<open>suppress(asyncio.CancelledError)\<close>. Awaiting a running task that was just cancelled
  raises \<^verbatim>\<open>CancelledError\<close>; awaiting a task that had already ended with an exception
  raises that exception, which leaves the loop unless it is a \<^verbatim>\<open>CancelledError\<close>.
\<close>

fun await_cancelled :: "task list \<Rightarrow> py_error option \<times> task list \<times> effect list" where
  "await_cancelled [] = (None, [], [])"
| "await_cancelled (t # ts) =
     (case task_failed t of
        None \<Rightarrow>
          (case await_cancelled ts of
             (r, ts', es) \<Rightarrow>
               (r, t\<lparr>task_failed := Some CancelledError\<rparr> # ts',
                TaskCancel (task_id t) # TaskAwait (task_id t) # es))
      | Some e \<Rightarrow>
          if e = CancelledError then
            (case await_cancelled ts of
               (r, ts', es) \<Rightarrow> (r, t # ts', TaskCancel (task_id t) # TaskAwait (task_id t) # es))
          else (Some e, t # ts, [TaskCancel (task_id t), TaskAwait (task_id t)]))"

definition shutdown :: "unit action" where
  "shutdown st =
     (case await_cancelled (background_tasks st) of
        (r, ts, es) \<Rightarrow>
          ((case r of None \<Rightarrow> Inr () | Some e \<Rightarrow> Inl e),
           (emit es st)\<lparr>background_tasks := ts\<rparr>))"

section \<open>middleware/metrics_middleware.py\<close>

record response =
  status_code :: nat
  background :: "(request \<times> nat \<times> int) list"

text \<open>
  \<^verbatim>\<open>request.url.path\<close>: Starlette builds the URL from the scope and reads
  \<^verbatim>\<open>scope["path"]\<close> for it, so a scope without that key raises \<^verbatim>\<open>KeyError\<close>.
\<close>

definition request_url_path :: "request \<Rightarrow> py_error + string" where
  "request_url_path req =
     (case scope_path req of
        None \<Rightarrow> Inl (KeyError ''path'')
      | Some p \<Rightarrow> Inr (url_path req))"

text \<open>
  Line 28: \<^verbatim>\<open>route = request.scope.get("path", request.url.path)\<close>. The default is an
  argument of \<^verbatim>\<open>get\<close>, so it is evaluated first and whether or not the key is there.
\<close>

definition route_label :: "request \<Rightarrow> py_error + string" where
  "route_label req =
     (case request_url_path req of
        Inl e \<Rightarrow> Inl e
      | Inr dflt \<Rightarrow> Inr (case scope_path req of Some p \<Rightarrow> p | None \<Rightarrow> dflt))"

text \<open>
  The \<^verbatim>\<open>finally\<close> block of \<^verbatim>\<open>dispatch\<close>; \<open>resp\<close> is the local variable \<^verbatim>\<open>response\<close>,
  still \<open>None\<close> when \<^verbatim>\<open>call_next\<close> raised. A response object is truthy. An exception
  of line 28 leaves the block before anything is recorded.
\<close>

definition record_request ::
  "metrics_decl \<Rightarrow> world \<Rightarrow> request \<Rightarrow> int \<Rightarrow> response option \<Rightarrow> unit action" where
  "record_request D w req start_time resp =
     (let code = (case resp of Some r \<Rightarrow> status_code r | None \<Rightarrow> 500)
      in case route_label req of
           Inl e \<Rightarrow> raise e
         | Inr route \<Rightarrow>
             (let kwargs = [(''method'', LStr (http_method req)),
                            (''route'', LStr route),
                            (''status_code'', LInt code)]
              in and_then
                   (counter_inc ''http_requests_total'' (http_requests_total_labelnames D)
                      kwargs)
                   (\<lambda>u st. histogram_observe ''http_request_duration_seconds''
                              (http_request_duration_seconds_labelnames D) kwargs
                              (perf_counter w (trace st) - start_time) st)))"


section \<open>routers/api.py and routers/health.py\<close>

definition insert_query :: string where
  "insert_query =
     [CHR 0x0A] @ ''            INSERT INTO user_data (name, email, message, created_at)'' @
     [CHR 0x0A] @ ''            VALUES ($1, $2, $3, NOW())'' @
     [CHR 0x0A] @ ''            RETURNING id, created_at, updated_at'' @
     [CHR 0x0A] @ ''        ''"

definition item_args :: "data_item_create \<Rightarrow> db_val list" where
  "item_args item =
     [VStr (item_name item), VStr (item_email item),
      (case item_message item of None \<Rightarrow> VNull | Some m \<Rightarrow> VStr m)]"


text \<open>The inner \<^verbatim>\<open>try\<close> block of \<^verbatim>\<open>create_data\<close>, lines 91 to 134.\<close>

definition create_data_body ::
  "metrics_decl \<Rightarrow> world \<Rightarrow> data_item_create \<Rightarrow> request \<Rightarrow> int \<Rightarrow> response action" where
  "create_data_body D w item req start_time =
     and_then (fetchrow D w insert_query (item_args item))
       (\<lambda>result.
          case result of
            None \<Rightarrow> raise (HTTPException 500)
          | Some cols \<Rightarrow>
              if cols = [] then raise (HTTPException 500)
              else
                (case response_model_error w item cols of
                   Some m \<Rightarrow> raise (ResponseError m)
                 | None \<Rightarrow>
                     (\<lambda>st.
                        and_then
                          (counter_inc ''db_operations_total'' (db_operations_total_labelnames D)
                             [(''operation'', LStr ''create''), (''status'', LStr ''success'')])
                          (\<lambda>u. return \<lparr>status_code = 201,
                                        background = [(req, 201, now w (trace st) - start_time)]\<rparr>)
                          st)))"

definition create_data ::
  "metrics_decl \<Rightarrow> world \<Rightarrow> data_item_create \<Rightarrow> request \<Rightarrow> response action" where
  "create_data D w item req st =
     try_except
       (try_except (create_data_body D w item req (now w (trace st)))
          is_Exception
          (\<lambda>db_error. raise (HTTPException 500)))
       is_Exception
       (\<lambda>e. and_then
               (counter_inc ''db_operations_total'' (db_operations_total_labelnames D)
                  [(''operation'', LStr ''create''), (''status'', LStr ''error'')])
               (\<lambda>u. if is_HTTPException e then raise e else raise (HTTPException 500)))
       st"

definition delete_data :: "metrics_decl \<Rightarrow> world \<Rightarrow> int \<Rightarrow> response action" where
  "delete_data D w item_id =
     try_except
       (and_then (execute D w ''DELETE FROM user_data WHERE id = $1'' [VInt item_id])
          (\<lambda>result.
             if result = ''DELETE 0'' then raise (HTTPException 404)
             else return \<lparr>status_code = 204, background = []\<rparr>))
       is_Exception
       (\<lambda>e. if is_HTTPException e then raise e
             else and_then
                    (counter_inc ''db_operations_total'' (db_operations_total_labelnames D)
                       [(''operation'', LStr ''delete''), (''status'', LStr ''error'')])
                    (\<lambda>u. raise (HTTPException 500)))"

subsection \<open>Routing\<close>














section \<open>Observing the trace\<close>

text \<open>The recordings on the two HTTP metrics, in the order they were made.\<close>

fun is_http_metric :: "effect \<Rightarrow> bool" where
  "is_http_metric (CounterInc name kwargs) = (name = ''http_requests_total'')"
| "is_http_metric (HistObserve name kwargs v) = (name = ''http_request_duration_seconds'')"
| "is_http_metric e = False"

definition http_events :: "state \<Rightarrow> effect list" where
  "http_events st = filter is_http_metric (trace st)"

text \<open>An action that records nothing on the HTTP metrics.\<close>

definition quiet :: "'a action \<Rightarrow> bool" where
  "quiet f = (\<forall>st. http_events (snd (f st)) = http_events st)"

section \<open>Example inputs\<close>

definition example_decl :: metrics_decl where
  "example_decl =
     \<lparr>http_requests_total_labelnames = [''method'', ''route'', ''status_code''],
      http_request_duration_seconds_labelnames = [''method'', ''route'', ''status_code''],
      db_operations_total_labelnames = [''operation'', ''status''],
      db_query_duration_seconds_labelnames = [''operation'']\<rparr>"

definition example_pool :: pool_obj where
  "example_pool = \<lparr>pool_id = 1, holders = 20\<rparr>"

definition unreachable_world :: world where
  "unreachable_world =
     \<lparr>env_db_port = Some 5432, env_db_max_connections = Some 20,
      connect = (\<lambda>h. CreateFails ''connection refused''),
      close_result = (\<lambda>h. None),
      fetch_result = (\<lambda>h. Inl ''connection refused''),
      fetchrow_result = (\<lambda>h. Inl ''connection refused''),
      execute_result = (\<lambda>h. Inl ''connection refused''),
      perf_counter = (\<lambda>h. int (length h)),
      now = (\<lambda>h. int (length h)),
      response_model_error = (\<lambda>item cols. None),
      parse_item_id = (\<lambda>seg. if seg = ''42'' then Some 42 else None),
      unrouted_status = (\<lambda>req. 404)\<rparr>"

definition reachable_world :: world where
  "reachable_world =
     \<lparr>env_db_port = Some 5432, env_db_max_connections = Some 20,
      connect = (\<lambda>h. Connected example_pool),
      close_result = (\<lambda>h. None),
      fetch_result = (\<lambda>h. Inr []),
      fetchrow_result = (\<lambda>h. Inr (Some [(''id'', VInt 7), (''created_at'', VStr ''t0''), (''updated_at'', VNull)])),
      execute_result = (\<lambda>h. Inr ''DELETE 1''),
      perf_counter = (\<lambda>h. int (length h)),
      now = (\<lambda>h. int (length h)),
      response_model_error = (\<lambda>item cols. None),
      parse_item_id = (\<lambda>seg. if seg = ''42'' then Some 42 else None),
      unrouted_status = (\<lambda>req. 404)\<rparr>"

definition fresh_state :: state where
  "fresh_state = \<lparr>pool = None, background_tasks = [], trace = []\<rparr>"

definition serving_state :: state where
  "serving_state =
     \<lparr>pool = Some example_pool,
      background_tasks = [\<lparr>task_id = 0, task_name = ''collect_cpu_percent'', task_failed = None\<rparr>],
      trace = []\<rparr>"

definition failing_delete :: "string action" where
  "failing_delete =
     pool_execute unreachable_world example_pool ''DELETE FROM user_data WHERE id = $1'' [VInt 42]"

text \<open>The two namespaces with the imports added that the files lack.\<close>

definition repaired_main_py :: namespace where
  "repaired_main_py = ''os'' # main_py"

definition repaired_database_py :: namespace where
  "repaired_database_py = ''logging'' # ''asyncio'' # database_py"

definition example_item :: data_item_create where
  "example_item =
     \<lparr>item_name = ''Jane Doe'', item_email = ''jane@example.com'', item_message = None\<rparr>"

definition post_request :: request where
  "post_request =
     \<lparr>http_method = ''POST'', scope_path = Some ''/api/data'', url_path = ''/api/data'',
      json_body = Some example_item\<rparr>"


text \<open>
  Two databases whose liveness probe fails after \<^verbatim>\<open>create_pool\<close> has succeeded: once, and
  every time.
\<close>

definition second_pool :: pool_obj where
  "second_pool = \<lparr>pool_id = 2, holders = 20\<rparr>"

definition probe_fails_once_world :: world where
  "probe_fails_once_world =
     reachable_world
       \<lparr>connect := (\<lambda>h. if CreatePool \<in> set h then Connected second_pool
                         else ProbeFails example_pool ''probe failed'')\<rparr>"

definition probe_fails_world :: world where
  "probe_fails_world =
     reachable_world\<lparr>connect := (\<lambda>h. ProbeFails example_pool ''probe failed'')\<rparr>"

section \<open>Properties\<close>

subsection \<open>The trace and the metrics registry\<close>

lemma trace_emit [simp]: "trace (emit es st) = trace st @ es"
  by (simp add: emit_def)
lemma pool_emit [simp]: "pool (emit es st) = pool st"
  by (simp add: emit_def)
lemma background_tasks_emit [simp]: "background_tasks (emit es st) = background_tasks st"
  by (simp add: emit_def)
lemma emit_emit: "emit es (emit ds st) = emit (ds @ es) st"
  by (simp add: emit_def)

lemma labels_accepted_db_counter:
  "mset declared = mset [''operation'', ''status''] \<Longrightarrow>
   labels_accepted declared [(''operation'', x), (''status'', y)]"
  by (simp add: labels_accepted_def)

lemma labels_accepted_db_histogram:
  "mset declared = mset [''operation''] \<Longrightarrow> labels_accepted declared [(''operation'', x)]"
  by (simp add: labels_accepted_def)

lemma counter_inc_accepted:
  "labels_accepted declared kwargs \<Longrightarrow>
   counter_inc name declared kwargs st = (Inr (), emit [CounterInc name kwargs] st)"
  by (simp add: counter_inc_def)

lemma histogram_observe_accepted:
  "labels_accepted declared kwargs \<Longrightarrow>
   histogram_observe name declared kwargs v st = (Inr (), emit [HistObserve name kwargs v] st)"
  by (simp add: histogram_observe_def)

lemma record_db_call_accepted:
  assumes "mset (db_query_duration_seconds_labelnames D) = mset [''operation'']"
    and "pool st = Some p"
  shows "record_db_call D w operation start_time st =
     (Inr (), emit [HistObserve ''db_query_duration_seconds'' [(''operation'', LStr operation)]
                      (perf_counter w (trace st) - start_time),
                    GaugeSet ''db_connections_active'' (int (holders p))] st)"
  using assms
  by (simp add: record_db_call_def and_then_def histogram_observe_accepted
      labels_accepted_db_histogram gauge_set_def emit_emit)

subsection \<open>The query primitives\<close>

lemma split_scan_blank: "\<forall>c\<in>set s. py_isspace c \<Longrightarrow> split_scan [] s = []"
  by (induction s) auto

lemma split_scan_token:
  "cur \<noteq> [] \<Longrightarrow> \<exists>rest. split_scan cur s = (cur @ takeWhile (\<lambda>c. \<not> py_isspace c) s) # rest"
proof (induction s arbitrary: cur)
  case Nil
  then show ?case by simp
next
  case (Cons c cs)
  show ?case
  proof (cases "py_isspace c")
    case True
    with Cons.prems show ?thesis by simp
  next
    case False
    from Cons.IH [of "cur @ [c]"] False show ?thesis by simp
  qed
qed

lemma split_scan_first:
  "\<exists>c\<in>set s. \<not> py_isspace c \<Longrightarrow>
   \<exists>rest. split_scan [] s = takeWhile (\<lambda>c. \<not> py_isspace c) (dropWhile py_isspace s) # rest"
proof (induction s)
  case Nil
  then show ?case by simp
next
  case (Cons c cs)
  show ?case
  proof (cases "py_isspace c")
    case True
    with Cons show ?thesis by auto
  next
    case False
    from split_scan_token [of "[c]" cs] False show ?thesis by auto
  qed
qed

text \<open>
  Claim C10, as amended. With the pool initialised, a query that is empty or all
  whitespace makes \<open>execute\<close> raise \<^verbatim>\<open>IndexError\<close> with the state untouched, so before any
  call of the driver and any metric. A query with a character that is not whitespace
  gets as operation kind its first whitespace-delimited token in lower case, and that
  kind is the one handed to the instrumented call.
\<close>

theorem execute_infers_operation:
  assumes "pool st = Some p"
  shows "((\<forall>c\<in>set query. py_isspace c) \<longrightarrow>
            execute D w query args st = (Inl (IndexError ''list index out of range''), st)) \<and>
         ((\<exists>c\<in>set query. \<not> py_isspace c) \<longrightarrow>
            infer_operation query =
              Inr (py_lower (takeWhile (\<lambda>c. \<not> py_isspace c) (dropWhile py_isspace query))) \<and>
            execute D w query args st =
              instrument_db_call D w
                (py_lower (takeWhile (\<lambda>c. \<not> py_isspace c) (dropWhile py_isspace query)))
                (pool_execute w p query args) st)"
proof (intro conjI impI)
  assume "\<forall>c\<in>set query. py_isspace c"
  then have "py_split query = []"
    by (simp add: py_split_def split_scan_blank)
  with assms show "execute D w query args st = (Inl (IndexError ''list index out of range''), st)"
    by (simp add: execute_def infer_operation_def)
next
  assume "\<exists>c\<in>set query. \<not> py_isspace c"
  then obtain rest where
    "py_split query = takeWhile (\<lambda>c. \<not> py_isspace c) (dropWhile py_isspace query) # rest"
    using split_scan_first [of query] by (auto simp: py_split_def)
  then show inf: "infer_operation query =
      Inr (py_lower (takeWhile (\<lambda>c. \<not> py_isspace c) (dropWhile py_isspace query)))"
    by (simp add: infer_operation_def)
  with assms show "execute D w query args st =
      instrument_db_call D w
        (py_lower (takeWhile (\<lambda>c. \<not> py_isspace c) (dropWhile py_isspace query)))
        (pool_execute w p query args) st"
    by (simp add: execute_def)
qed

lemma lower_DELETE: "py_lower ''DELETE'' = ''delete''"
  by code_simp

theorem execute_infers_operation_witness:
  "pool serving_state = Some example_pool \<and>
   execute example_decl reachable_world ''  '' [] serving_state =
     (Inl (IndexError ''list index out of range''), serving_state) \<and>
   infer_operation '' DELETE FROM user_data'' = Inr ''delete''"
proof -
  have a: "pool serving_state = Some example_pool"
    by (simp add: serving_state_def)
  have b: "\<forall>c\<in>set ''  ''. py_isspace c"
    by (simp add: py_isspace_def)
  have c: "\<exists>c\<in>set '' DELETE FROM user_data''. \<not> py_isspace c"
    by (simp add: py_isspace_def)
  have d: "takeWhile (\<lambda>c. \<not> py_isspace c) (dropWhile py_isspace '' DELETE FROM user_data'') =
           ''DELETE''"
    by (simp add: py_isspace_def)
  from execute_infers_operation [OF a, of "''  ''" example_decl reachable_world "[]"] b
  have e: "execute example_decl reachable_world ''  '' [] serving_state =
             (Inl (IndexError ''list index out of range''), serving_state)"
    by blast
  from execute_infers_operation [OF a, of "'' DELETE FROM user_data''" example_decl
      reachable_world "[]"] c
  have "infer_operation '' DELETE FROM user_data'' =
          Inr (py_lower (takeWhile (\<lambda>c. \<not> py_isspace c)
                 (dropWhile py_isspace '' DELETE FROM user_data'')))"
    by blast
  with d have f: "infer_operation '' DELETE FROM user_data'' = Inr ''delete''"
    by (simp add: lower_DELETE)
  from a e f show ?thesis by blast
qed

text \<open>
  Claim C10 as stated fails without a pool: the guard of line 188 comes first, and the
  empty query raises \<^verbatim>\<open>RuntimeError\<close>, not \<^verbatim>\<open>IndexError\<close>.
\<close>

theorem execute_without_pool_counterexample:
  "execute example_decl reachable_world '''' [] fresh_state =
     (Inl (RuntimeError ''Database pool not initialized''), fresh_state)"
  by (simp add: execute_def fresh_state_def)

text \<open>
  Claim C9. While the global \<^verbatim>\<open>pool\<close> is \<open>None\<close>, each of the four query primitives
  raises \<^verbatim>\<open>RuntimeError('Database pool not initialized')\<close> at once and leaves the state as
  it was: no call of the driver, no metric, no retry. The pool is \<open>None\<close> until an
  \<^verbatim>\<open>init_db\<close> has returned: a call of \<^verbatim>\<open>init_db\<close> that raises leaves it \<open>None\<close> (as the module
  stands, the call raises at line 56 before \<^verbatim>\<open>create_pool\<close>). It is \<open>None\<close> again once
  \<^verbatim>\<open>close_db\<close> has returned.
\<close>

theorem query_without_pool_fails:
  "(pool st = None \<longrightarrow>
      fetch D w query args st = (Inl (RuntimeError ''Database pool not initialized''), st) \<and>
      fetchrow D w query args st = (Inl (RuntimeError ''Database pool not initialized''), st) \<and>
      execute D w query args st = (Inl (RuntimeError ''Database pool not initialized''), st) \<and>
      execute_returning D w query args st =
        (Inl (RuntimeError ''Database pool not initialized''), st)) \<and>
   (\<forall>e st'. pool st = None \<and> init_db database_py w st = (Inl e, st') \<longrightarrow> pool st' = None) \<and>
   (\<forall>st'. close_db w st = (Inr (), st') \<longrightarrow> pool st' = None)"
proof (intro conjI impI allI)
  assume "pool st = None"
  then show "fetch D w query args st = (Inl (RuntimeError ''Database pool not initialized''), st)"
    and "fetchrow D w query args st = (Inl (RuntimeError ''Database pool not initialized''), st)"
    and "execute D w query args st = (Inl (RuntimeError ''Database pool not initialized''), st)"
    and "execute_returning D w query args st =
           (Inl (RuntimeError ''Database pool not initialized''), st)"
    by (simp_all add: fetch_def fetchrow_def execute_def execute_returning_def)
next
  fix e st'
  assume "pool st = None \<and> init_db database_py w st = (Inl e, st')"
  then show "pool st' = None"
    by (auto simp: init_db_def database_py_def bound_def split: if_splits)
next
  fix st'
  assume "close_db w st = (Inr (), st')"
  then show "pool st' = None"
    by (auto simp: close_db_def split: option.splits)
qed

theorem query_without_pool_fails_witness:
  "pool fresh_state = None \<and>
   execute example_decl reachable_world ''DELETE FROM user_data WHERE id = $1'' [VInt 42]
     fresh_state = (Inl (RuntimeError ''Database pool not initialized''), fresh_state) \<and>
   init_db database_py reachable_world fresh_state = (Inl (NameError ''logging''), fresh_state) \<and>
   close_db reachable_world serving_state =
     (Inr (), (emit [PoolClose example_pool] serving_state)\<lparr>pool := None\<rparr>) \<and>
   pool ((emit [PoolClose example_pool] serving_state)\<lparr>pool := None\<rparr>) = None"
proof -
  have a: "pool fresh_state = None"
    by (simp add: fresh_state_def)
  have b: "init_db database_py reachable_world fresh_state =
             (Inl (NameError ''logging''), fresh_state)"
    by (simp add: init_db_def database_py_def bound_def fresh_state_def reachable_world_def)
  have c: "close_db reachable_world serving_state =
             (Inr (), (emit [PoolClose example_pool] serving_state)\<lparr>pool := None\<rparr>)"
    by (simp add: close_db_def serving_state_def reachable_world_def)
  note fresh = query_without_pool_fails [of fresh_state example_decl reachable_world
      "''DELETE FROM user_data WHERE id = $1''" "[VInt 42]"]
  note serving = query_without_pool_fails [of serving_state example_decl reachable_world
      "''SELECT 1''" "[]"]
  from fresh a have d: "execute example_decl reachable_world
      ''DELETE FROM user_data WHERE id = $1'' [VInt 42] fresh_state =
      (Inl (RuntimeError ''Database pool not initialized''), fresh_state)"
    by blast
  from serving c have e: "pool ((emit [PoolClose example_pool] serving_state)\<lparr>pool := None\<rparr>) = None"
    by blast
  from a b c d e show ?thesis by blast
qed

lemma instrument_db_call_eq:
  assumes "pool st = Some p"
    and "mset (db_operations_total_labelnames D) = mset [''operation'', ''status'']"
    and "mset (db_query_duration_seconds_labelnames D) = mset [''operation'']"
    and "func st = (r, st1)"
    and "pool st1 = Some p1"
    and "\<forall>e. r = Inl e \<longrightarrow> is_Exception e"
  shows "instrument_db_call D w operation func st =
     (r, emit
           [CounterInc ''db_operations_total''
              [(''operation'', LStr operation),
               (''status'', LStr (case r of Inl e \<Rightarrow> ''error'' | Inr v \<Rightarrow> ''success''))],
            HistObserve ''db_query_duration_seconds'' [(''operation'', LStr operation)]
              (perf_counter w
                 (trace st1 @
                  [CounterInc ''db_operations_total''
                     [(''operation'', LStr operation),
                      (''status'', LStr (case r of Inl e \<Rightarrow> ''error'' | Inr v \<Rightarrow> ''success''))]])
               - perf_counter w (trace st)),
            GaugeSet ''db_connections_active'' (int (holders p1))]
           st1)"
proof (cases r)
  case (Inl e)
  with assms have "is_Exception e" by simp
  with assms Inl show ?thesis
    by (simp add: instrument_db_call_def try_finally_def try_except_def and_then_def
        counter_inc_accepted record_db_call_accepted raise_def
        labels_accepted_db_counter emit_emit)
next
  case (Inr v)
  with assms show ?thesis
    by (simp add: instrument_db_call_def try_finally_def try_except_def and_then_def
        counter_inc_accepted record_db_call_accepted return_def
        labels_accepted_db_counter emit_emit)
qed

text \<open>
  Claim C6. With a pool present and the two DB metrics declared with the label names the
  code passes, a wrapped call returns the very outcome of the underlying operation, run
  once: its result, or its exception unchanged. After the operation's own effects the
  trace holds exactly one increment of the operation counter (outcome \<^verbatim>\<open>error\<close> when the
  operation failed, \<^verbatim>\<open>success\<close> otherwise), one observation of the elapsed time for that
  operation kind, and one write of the gauge with the holder count of the pool at that
  moment.
\<close>

theorem instrumented_call_records:
  assumes "pool st = Some p"
    and "mset (db_operations_total_labelnames D) = mset [''operation'', ''status'']"
    and "mset (db_query_duration_seconds_labelnames D) = mset [''operation'']"
    and "func st = (r, st1)"
    and "pool st1 = Some p1"
    and "\<forall>e. r = Inl e \<longrightarrow> is_Exception e"
  shows "instrument_db_call D w operation func st =
     (r, emit
           [CounterInc ''db_operations_total''
              [(''operation'', LStr operation),
               (''status'', LStr (case r of Inl e \<Rightarrow> ''error'' | Inr v \<Rightarrow> ''success''))],
            HistObserve ''db_query_duration_seconds'' [(''operation'', LStr operation)]
              (perf_counter w
                 (trace st1 @
                  [CounterInc ''db_operations_total''
                     [(''operation'', LStr operation),
                      (''status'', LStr (case r of Inl e \<Rightarrow> ''error'' | Inr v \<Rightarrow> ''success''))]])
               - perf_counter w (trace st)),
            GaugeSet ''db_connections_active'' (int (holders p1))]
           st1)"
  using assms by (rule instrument_db_call_eq)

theorem instrumented_call_records_witness:
  "pool serving_state = Some example_pool \<and>
   failing_delete serving_state =
     (Inl (DbError ''connection refused''),
      emit [PoolOp ''execute'' example_pool ''DELETE FROM user_data WHERE id = $1'' [VInt 42]]
        serving_state) \<and>
   instrument_db_call example_decl unreachable_world ''delete'' failing_delete serving_state =
     (Inl (DbError ''connection refused''),
      emit [PoolOp ''execute'' example_pool ''DELETE FROM user_data WHERE id = $1'' [VInt 42],
            CounterInc ''db_operations_total''
              [(''operation'', LStr ''delete''), (''status'', LStr ''error'')],
            HistObserve ''db_query_duration_seconds'' [(''operation'', LStr ''delete'')] 2,
            GaugeSet ''db_connections_active'' 20]
        serving_state)"
proof -
  have a: "pool serving_state = Some example_pool"
    by (simp add: serving_state_def)
  have b: "failing_delete serving_state =
     (Inl (DbError ''connection refused''),
      emit [PoolOp ''execute'' example_pool ''DELETE FROM user_data WHERE id = $1'' [VInt 42]]
        serving_state)"
    by (simp add: failing_delete_def pool_execute_def unreachable_world_def)
  have c: "mset (db_operations_total_labelnames example_decl) = mset [''operation'', ''status'']"
    and d: "mset (db_query_duration_seconds_labelnames example_decl) = mset [''operation'']"
    by (simp_all add: example_decl_def)
  have e: "pool (emit [PoolOp ''execute'' example_pool ''DELETE FROM user_data WHERE id = $1''
                  [VInt 42]] serving_state) = Some example_pool"
    by (simp add: serving_state_def)
  have f: "\<forall>x. (Inl (DbError ''connection refused'') :: py_error + string) = Inl x
             \<longrightarrow> is_Exception x"
    by simp
  from instrumented_call_records [where func = failing_delete and st = serving_state
      and w = unreachable_world and operation = "''delete''", OF a c d b e f] a b
  show ?thesis
    by (simp add: emit_emit serving_state_def unreachable_world_def example_pool_def)
qed

subsection \<open>Pool initialisation\<close>

lemma init_db_existing_pool: "pool st \<noteq> None \<Longrightarrow> init_db ns w st = (Inr (), st)"
  by (simp add: init_db_def)

lemma attempt_connect_unreachable:
  "connect w (trace st) = CreateFails m \<Longrightarrow>
   attempt_connect w st = (Some (DbError m), emit [CreatePool] st)"
  by (simp add: attempt_connect_def)

lemma init_db_loop_unreachable:
  "\<forall>h. \<exists>m. connect w h = CreateFails m \<Longrightarrow> attempt \<le> max_retries \<Longrightarrow>
   \<exists>e st'. init_db_loop ns w max_retries attempt retry_delay st = (Inl e, st') \<and>
           is_Exception e \<and> pool st' = pool st \<and>
           background_tasks st' = background_tasks st"
proof (induction ns w max_retries attempt retry_delay st rule: init_db_loop.induct)
  case (1 ns w max_retries attempt retry_delay st)
  from "1.prems"(1) obtain m where m: "connect w (trace st) = CreateFails m"
    by blast
  show ?case
  proof (cases "attempt < max_retries")
    case False
    with "1.prems"(2) m show ?thesis
      by (subst init_db_loop.simps) (simp add: attempt_connect_unreachable)
  next
    case last: True
    show ?thesis
    proof (cases "bound ns ''asyncio''")
      case False
      with last m show ?thesis
        by (subst init_db_loop.simps) (simp add: attempt_connect_unreachable)
    next
      case True
      have ac: "(Some (DbError m), emit [CreatePool] st) = attempt_connect w st"
        using m by (simp add: attempt_connect_unreachable)
      have "\<exists>e st'. init_db_loop ns w max_retries (attempt + 1) (retry_delay * 2)
               (emit [Sleep retry_delay] (emit [CreatePool] st)) = (Inl e, st') \<and>
             is_Exception e \<and>
             pool st' = pool (emit [Sleep retry_delay] (emit [CreatePool] st)) \<and>
             background_tasks st' =
               background_tasks (emit [Sleep retry_delay] (emit [CreatePool] st))"
        using last True "1.prems" by (intro "1.IH" [OF _ ac refl]) simp_all
      then obtain e st' where
        "init_db_loop ns w max_retries (attempt + 1) (retry_delay * 2)
           (emit [Sleep retry_delay] (emit [CreatePool] st)) = (Inl e, st')"
        "is_Exception e" "pool st' = pool st" "background_tasks st' = background_tasks st"
        by auto
      with last True m "1.prems"(2) show ?thesis
        by (subst init_db_loop.simps) (simp add: attempt_connect_unreachable)
    qed
  qed
qed

lemma init_db_unreachable:
  assumes "\<forall>h. \<exists>m. connect w h = CreateFails m" and "pool st = None"
  shows "\<exists>e st'. init_db ns w st = (Inl e, st') \<and> is_Exception e \<and> pool st' = None \<and>
                 background_tasks st' = background_tasks st"
proof -
  from init_db_loop_unreachable [OF assms(1), of 1 5 ns 2 st] assms(2)
  show ?thesis
    by (auto simp: init_db_def)
qed

text \<open>
  What the retry loop does once it is reached, with every name it looks up bound:
  against a database that refuses every connection it calls \<^verbatim>\<open>create_pool\<close> five times,
  sleeps 2, 4, 8 and 16 seconds in between, and raises the last failure.
\<close>

lemma init_db_loop_retry:
  assumes "bound ns ''asyncio''" and "connect w (trace s) = CreateFails m"
    and "attempt < max_retries"
  shows "init_db_loop ns w max_retries attempt d s =
         init_db_loop ns w max_retries (attempt + 1) (d * 2) (emit [CreatePool, Sleep d] s)"
  apply (subst init_db_loop.simps)
  using assms
  apply (simp add: attempt_connect_def emit_emit)
  done

lemma init_db_loop_last:
  assumes "connect w (trace s) = CreateFails m"
  shows "init_db_loop ns w max_retries max_retries d s = (Inl (DbError m), emit [CreatePool] s)"
  apply (subst init_db_loop.simps)
  using assms
  apply (simp add: attempt_connect_def)
  done


lemma init_db_five_attempts:
  assumes "bound ns ''os''" and "bound ns ''logging''" and "bound ns ''asyncio''"
    and "env_db_port w \<noteq> None" and "env_db_max_connections w \<noteq> None"
    and "\<forall>h. connect w h = CreateFails m"
    and "pool st = None"
  shows "init_db ns w st =
     (Inl (DbError m),
      emit [CreatePool, Sleep 2, CreatePool, Sleep 4, CreatePool, Sleep 8, CreatePool,
            Sleep 16, CreatePool] st)"
proof -
  from assms(6) have c: "\<And>s. connect w (trace s) = CreateFails m"
    by simp
  note retry = init_db_loop_retry [OF assms(3) c, where max_retries = 5]
  let ?s1 = "emit [CreatePool, Sleep 2] st"
  let ?s2 = "emit [CreatePool, Sleep 4] ?s1"
  let ?s3 = "emit [CreatePool, Sleep 8] ?s2"
  let ?s4 = "emit [CreatePool, Sleep 16] ?s3"
  have "init_db ns w st = init_db_loop ns w 5 1 2 st"
    using assms by (auto simp: init_db_def)
  also have "\<dots> = init_db_loop ns w 5 2 4 ?s1"
    using retry [where attempt = 1 and d = 2 and s = st] by (simp add: numeral_2_eq_2)
  also have "\<dots> = init_db_loop ns w 5 3 8 ?s2"
    using retry [where attempt = 2 and d = 4 and s = ?s1] by simp
  also have "\<dots> = init_db_loop ns w 5 4 16 ?s3"
    using retry [where attempt = 3 and d = 8 and s = ?s2] by simp
  also have "\<dots> = init_db_loop ns w 5 5 32 ?s4"
    using retry [where attempt = 4 and d = 16 and s = ?s3] by simp
  also have "\<dots> = (Inl (DbError m), emit [CreatePool] ?s4)"
    by (rule init_db_loop_last [OF c])
  finally show ?thesis
    by (simp add: emit_emit)
qed

text \<open>
  Line 67 assigns the global \<^verbatim>\<open>pool\<close> before the probe of lines 85 and 86 runs, and the
  handler never closes or resets it. With every name bound, an attempt whose probe fails
  leaves its pool behind and the next attempt creates another one; and a call whose
  last probe fails raises with a pool assigned.
\<close>

lemma init_db_probe_failure_leaks_pool:
  "init_db repaired_database_py probe_fails_once_world fresh_state =
     (Inr (),
      \<lparr>pool = Some second_pool, background_tasks = [],
       trace = [CreatePool, Probe example_pool, Sleep 2,
                CreatePool, Probe second_pool, GaugeSet ''db_connections_active'' 20]\<rparr>)"
proof -
  have n: "bound repaired_database_py ''os''" "bound repaired_database_py ''logging''"
    "bound repaired_database_py ''asyncio''"
    by (simp_all add: bound_def repaired_database_py_def database_py_def)
  have e: "env_db_port probe_fails_once_world \<noteq> None"
    "env_db_max_connections probe_fails_once_world \<noteq> None"
    by (simp_all add: probe_fails_once_world_def reachable_world_def)
  have "init_db repaired_database_py probe_fails_once_world fresh_state =
        init_db_loop repaired_database_py probe_fails_once_world 5 1 2 fresh_state"
    using n e by (auto simp: init_db_def fresh_state_def)
  also have "\<dots> = init_db_loop repaired_database_py probe_fails_once_world 5 2 4
      \<lparr>pool = Some example_pool, background_tasks = [],
       trace = [CreatePool, Probe example_pool, Sleep 2]\<rparr>"
    using n(3)
    by (subst init_db_loop.simps)
       (simp add: attempt_connect_def probe_fails_once_world_def fresh_state_def emit_def
          numeral_2_eq_2)
  also have "\<dots> = (Inr (),
      \<lparr>pool = Some second_pool, background_tasks = [],
       trace = [CreatePool, Probe example_pool, Sleep 2,
                CreatePool, Probe second_pool, GaugeSet ''db_connections_active'' 20]\<rparr>)"
    by (subst init_db_loop.simps)
       (simp add: attempt_connect_def probe_fails_once_world_def emit_def second_pool_def)
  finally show ?thesis .
qed


lemma init_db_failed_probe_keeps_pool:
  "init_db repaired_database_py probe_fails_world fresh_state =
     (Inl (DbError ''probe failed''),
      \<lparr>pool = Some example_pool, background_tasks = [],
       trace = [CreatePool, Probe example_pool, Sleep 2, CreatePool, Probe example_pool, Sleep 4,
                CreatePool, Probe example_pool, Sleep 8, CreatePool, Probe example_pool, Sleep 16,
                CreatePool, Probe example_pool]\<rparr>)"
proof -
  have n: "bound repaired_database_py ''os''" "bound repaired_database_py ''logging''"
    "bound repaired_database_py ''asyncio''"
    by (simp_all add: bound_def repaired_database_py_def database_py_def)
  have e: "env_db_port probe_fails_world \<noteq> None"
    "env_db_max_connections probe_fails_world \<noteq> None"
    by (simp_all add: probe_fails_world_def reachable_world_def)
  have c: "\<And>h. connect probe_fails_world h = ProbeFails example_pool ''probe failed''"
    by (simp add: probe_fails_world_def)
  have step: "\<And>a a' d d' s. a < 5 \<Longrightarrow> a' = a + 1 \<Longrightarrow> d' = d * 2 \<Longrightarrow>
      init_db_loop repaired_database_py probe_fails_world 5 a d s =
      init_db_loop repaired_database_py probe_fails_world 5 a' d'
        (emit [Sleep d] ((emit [CreatePool, Probe example_pool] s)\<lparr>pool := Some example_pool\<rparr>))"
    using n(3)
    by (subst init_db_loop.simps) (simp add: attempt_connect_def c)
  have last: "\<And>d s. init_db_loop repaired_database_py probe_fails_world 5 5 d s =
      (Inl (DbError ''probe failed''),
       (emit [CreatePool, Probe example_pool] s)\<lparr>pool := Some example_pool\<rparr>)"
    by (subst init_db_loop.simps) (simp add: attempt_connect_def c)
  have "init_db repaired_database_py probe_fails_world fresh_state =
        init_db_loop repaired_database_py probe_fails_world 5 1 2 fresh_state"
    using n e by (auto simp: init_db_def fresh_state_def)
  also have "\<dots> = init_db_loop repaired_database_py probe_fails_world 5 2 4
      \<lparr>pool = Some example_pool, background_tasks = [],
       trace = [CreatePool, Probe example_pool, Sleep 2]\<rparr>"
    by (subst step [where a' = 2 and d' = 4]) (simp_all add: fresh_state_def emit_def)
  also have "\<dots> = init_db_loop repaired_database_py probe_fails_world 5 3 8
      \<lparr>pool = Some example_pool, background_tasks = [],
       trace = [CreatePool, Probe example_pool, Sleep 2, CreatePool, Probe example_pool,
                Sleep 4]\<rparr>"
    by (subst step [where a' = 3 and d' = 8]) (simp_all add: emit_def)
  also have "\<dots> = init_db_loop repaired_database_py probe_fails_world 5 4 16
      \<lparr>pool = Some example_pool, background_tasks = [],
       trace = [CreatePool, Probe example_pool, Sleep 2, CreatePool, Probe example_pool,
                Sleep 4, CreatePool, Probe example_pool, Sleep 8]\<rparr>"
    by (subst step [where a' = 4 and d' = 16]) (simp_all add: emit_def)
  also have "\<dots> = init_db_loop repaired_database_py probe_fails_world 5 5 32
      \<lparr>pool = Some example_pool, background_tasks = [],
       trace = [CreatePool, Probe example_pool, Sleep 2, CreatePool, Probe example_pool,
                Sleep 4, CreatePool, Probe example_pool, Sleep 8, CreatePool,
                Probe example_pool, Sleep 16]\<rparr>"
    by (subst step [where a' = 5 and d' = 32]) (simp_all add: emit_def)
  also have "\<dots> = (Inl (DbError ''probe failed''),
      \<lparr>pool = Some example_pool, background_tasks = [],
       trace = [CreatePool, Probe example_pool, Sleep 2, CreatePool, Probe example_pool, Sleep 4,
                CreatePool, Probe example_pool, Sleep 8, CreatePool, Probe example_pool, Sleep 16,
                CreatePool, Probe example_pool]\<rparr>)"
    by (simp add: last emit_def)
  finally show ?thesis .
qed

lemma init_db_name_error:
  assumes "pool st = None" and "env_db_port w \<noteq> None" and "env_db_max_connections w \<noteq> None"
  shows "init_db database_py w st = (Inl (NameError ''logging''), st)"
  using assms by (auto simp: init_db_def database_py_def bound_def)

text \<open>
  Claim C8, on the module as it stands. \<^verbatim>\<open>database.py\<close> never imports \<^verbatim>\<open>logging\<close>, so with
  no pool yet \<^verbatim>\<open>init_db\<close> raises \<^verbatim>\<open>NameError\<close> at line 56: against the unreachable database
  it makes no connection attempt and no sleep, and what it raises is not the connection
  failure.
\<close>

theorem init_db_unreachable_makes_no_attempt:
  "init_db database_py unreachable_world fresh_state = (Inl (NameError ''logging''), fresh_state) \<and>
   trace fresh_state = []"
  by (simp add: init_db_name_error fresh_state_def unreachable_world_def)

text \<open>
  Claim C7, on the module as it stands. Two consecutive calls of \<^verbatim>\<open>init_db\<close> in a fresh
  process, the database being reachable, both raise \<^verbatim>\<open>NameError\<close> at line 56; no pool is
  created and \<^verbatim>\<open>pool\<close> stays \<open>None\<close>. (\<open>init_db_existing_pool\<close> is the guard of lines 46
  and 47: with a pool in place the call returns at once and changes nothing.)
\<close>

theorem init_db_twice_creates_no_pool:
  "init_db database_py reachable_world fresh_state = (Inl (NameError ''logging''), fresh_state) \<and>
   init_db database_py reachable_world (snd (init_db database_py reachable_world fresh_state)) =
     (Inl (NameError ''logging''), fresh_state) \<and>
   pool fresh_state = None \<and> trace fresh_state = []"
proof -
  have "init_db database_py reachable_world fresh_state =
          (Inl (NameError ''logging''), fresh_state)"
    by (simp add: init_db_name_error fresh_state_def reachable_world_def)
  then show ?thesis
    by (simp add: fresh_state_def)
qed

subsection \<open>Startup and shutdown\<close>

lemma startup_loop_unreachable:
  "\<forall>h. \<exists>m. connect w h = CreateFails m \<Longrightarrow> pool st = None \<Longrightarrow> attempt \<le> max_retries \<Longrightarrow>
   \<exists>e st'. startup_loop nm nd w max_retries attempt retry_delay st = (Inl e, st') \<and>
           is_Exception e \<and> pool st' = None \<and>
           background_tasks st' = background_tasks st"
proof (induction nm nd w max_retries attempt retry_delay st rule: startup_loop.induct)
  case (1 nm nd w max_retries attempt retry_delay st)
  from init_db_unreachable [OF "1.prems"(1,2), of nd]
  obtain e st1 where init: "init_db nd w st = (Inl e, st1)" and exc: "is_Exception e"
    and p1: "pool st1 = None" and b1: "background_tasks st1 = background_tasks st"
    by blast
  show ?case
  proof (cases "attempt = max_retries \<or> \<not> bound nm ''asyncio''")
    case True
    with "1.prems"(3) init exc p1 b1 show ?thesis
      by (subst startup_loop.simps) auto
  next
    case False
    have "\<exists>e' st'. startup_loop nm nd w max_retries (attempt + 1) (min (retry_delay * 2) 10)
               (emit [Sleep retry_delay] st1) = (Inl e', st') \<and>
             is_Exception e' \<and> pool st' = None \<and>
             background_tasks st' = background_tasks (emit [Sleep retry_delay] st1)"
      using False exc p1 "1.prems"
      by (intro "1.IH" [OF _ init [symmetric] refl]) simp_all
    then obtain e' st' where
      "startup_loop nm nd w max_retries (attempt + 1) (min (retry_delay * 2) 10)
         (emit [Sleep retry_delay] st1) = (Inl e', st')"
      "is_Exception e'" "pool st' = None" "background_tasks st' = background_tasks st"
      using b1 by auto
    with False "1.prems"(3) init exc show ?thesis
      by (subst startup_loop.simps) auto
  qed
qed

lemma startup_unreachable_returns:
  assumes "bound nm ''logging''"
    and "\<forall>h. \<exists>m. connect w h = CreateFails m"
    and "pool st = None"
  shows "\<exists>st'. startup nm nd w st = (Inr (), st') \<and> pool st' = None \<and>
               background_tasks st' = background_tasks st"
proof (cases "bound nm ''os''")
  case False
  with assms show ?thesis
    by (simp add: startup_def try_except_def return_def)
next
  case True
  from startup_loop_unreachable [OF assms(2,3), of 1 5 nm nd 1]
  obtain e st' where "startup_loop nm nd w 5 1 1 st = (Inl e, st')" "is_Exception e"
    "pool st' = None" "background_tasks st' = background_tasks st"
    by auto
  with True assms(1) show ?thesis
    by (simp add: startup_def try_except_def and_then_def return_def)
qed

text \<open>
  Claim C3, as amended. When every connection attempt fails, \<^verbatim>\<open>_startup\<close> does not
  propagate the error: it returns normally, whichever names its module and
  \<^verbatim>\<open>database.py\<close> bind, so the service goes on to accept traffic. No pool is in place and
  no background task has been started.
\<close>

theorem startup_swallows_failure:
  assumes "bound nm ''logging''"
    and "\<forall>h. \<exists>m. connect w h = CreateFails m"
    and "pool st = None"
  shows "\<exists>st'. startup nm nd w st = (Inr (), st') \<and> pool st' = None \<and>
               background_tasks st' = background_tasks st"
  using assms by (rule startup_unreachable_returns)

theorem startup_swallows_failure_witness:
  "bound main_py ''logging'' \<and>
   (\<forall>h. \<exists>m. connect unreachable_world h = CreateFails m) \<and>
   pool fresh_state = None \<and>
   (\<exists>st'. startup main_py database_py unreachable_world fresh_state = (Inr (), st') \<and>
          pool st' = None \<and> background_tasks st' = background_tasks fresh_state)"
proof -
  have a: "bound main_py ''logging''"
    by (simp add: bound_def main_py_def)
  have b: "\<forall>h. \<exists>m. connect unreachable_world h = CreateFails m"
    by (simp add: unreachable_world_def)
  have c: "pool fresh_state = None"
    by (simp add: fresh_state_def)
  from startup_swallows_failure [OF a b c, of database_py] a b c show ?thesis
    by blast
qed

text \<open>
  Claim C3 as stated fails: with the database unreachable the hook returns normally,
  on the modules as they stand (where line 67 raises \<^verbatim>\<open>NameError\<close> inside the \<^verbatim>\<open>try\<close>) and
  also with the missing imports added (where twenty-five connection attempts fail).
\<close>

theorem startup_propagates_counterexample:
  "fst (startup main_py database_py unreachable_world fresh_state) = Inr () \<and>
   fst (startup repaired_main_py repaired_database_py unreachable_world fresh_state) = Inr ()"
proof -
  have a: "bound main_py ''logging''" "bound repaired_main_py ''logging''"
    by (simp_all add: bound_def main_py_def repaired_main_py_def)
  have b: "\<forall>h. \<exists>m. connect unreachable_world h = CreateFails m"
    by (simp add: unreachable_world_def)
  have c: "pool fresh_state = None"
    by (simp add: fresh_state_def)
  from startup_unreachable_returns [OF a(1) b c, of database_py]
    startup_unreachable_returns [OF a(2) b c, of repaired_database_py]
  show ?thesis by auto
qed

lemma shutdown_keeps_pool: "pool (snd (shutdown st)) = pool st"
  by (simp add: shutdown_def split: prod.splits)

lemma await_cancelled_effects:
  "await_cancelled ts = (r, ts', es) \<Longrightarrow> PoolClose p \<notin> set es"
  by (induction ts arbitrary: r ts' es) (auto split: option.splits prod.splits if_splits)

lemma shutdown_never_closes:
  "\<exists>es. trace (snd (shutdown st)) = trace st @ es \<and> PoolClose p \<notin> set es"
proof -
  obtain r ts es where a: "await_cancelled (background_tasks st) = (r, ts, es)"
    by (cases "await_cancelled (background_tasks st)") auto
  from await_cancelled_effects [OF a] a show ?thesis
    by (simp add: shutdown_def)
qed

text \<open>
  Claim C5, on the code as it stands. \<^verbatim>\<open>_shutdown\<close> cancels and awaits the sampler and
  stops there: \<^verbatim>\<open>close_db\<close> is never called, the pool is still in place and no
  \<^verbatim>\<open>pool.close()\<close> is in the trace.
\<close>

theorem shutdown_leaves_pool_open:
  "shutdown serving_state =
     (Inr (),
      \<lparr>pool = Some example_pool,
       background_tasks =
         [\<lparr>task_id = 0, task_name = ''collect_cpu_percent'', task_failed = Some CancelledError\<rparr>],
       trace = [TaskCancel 0, TaskAwait 0]\<rparr>)"
  by (simp add: shutdown_def serving_state_def emit_def)

subsection \<open>Requests\<close>







lemma http_events_emit:
  "\<forall>e\<in>set es. \<not> is_http_metric e \<Longrightarrow> http_events (emit es st) = http_events st"
  by (simp add: http_events_def)


lemma quiet_db_histogram:
  "quiet (histogram_observe ''db_query_duration_seconds'' declared kwargs v)"
  by (simp add: quiet_def histogram_observe_def http_events_emit)

lemma quiet_gauge: "quiet (gauge_set name v)"
  by (simp add: quiet_def gauge_set_def http_events_emit)
















lemma recorders_exclusive:
  "labels_accepted declared [(''method'', x), (''endpoint'', y), (''status_code'', z)] \<Longrightarrow>
   \<not> labels_accepted declared [(''method'', x'), (''route'', y'), (''status_code'', z')]"
  by (auto simp: labels_accepted_def dest: sym)


lemma record_request_without_path:
  "scope_path req = None \<Longrightarrow>
   record_request D w req start_time resp st = (Inl (KeyError ''path''), st)"
  by (simp add: record_request_def route_label_def request_url_path_def raise_def)






lemma delete_operation: "infer_operation ''DELETE FROM user_data WHERE id = $1'' = Inr ''delete''"
  by (simp add: infer_operation_def py_split_def py_isspace_def lower_DELETE)

lemma instrument_pool_op:
  assumes "pool st = Some p"
    and "mset (db_operations_total_labelnames D) = mset [''operation'', ''status'']"
    and "mset (db_query_duration_seconds_labelnames D) = mset [''operation'']"
    and "func st = (r, emit [PoolOp opname p query args] st)"
    and "\<forall>e. r = Inl e \<longrightarrow> is_Exception e"
  shows "instrument_db_call D w operation func st =
     (r, emit
           [PoolOp opname p query args,
            CounterInc ''db_operations_total''
              [(''operation'', LStr operation),
               (''status'', LStr (case r of Inl e \<Rightarrow> ''error'' | Inr v \<Rightarrow> ''success''))],
            HistObserve ''db_query_duration_seconds'' [(''operation'', LStr operation)]
              (perf_counter w
                 (trace st @
                  [PoolOp opname p query args,
                   CounterInc ''db_operations_total''
                     [(''operation'', LStr operation),
                      (''status'', LStr (case r of Inl e \<Rightarrow> ''error'' | Inr v \<Rightarrow> ''success''))]])
               - perf_counter w (trace st)),
            GaugeSet ''db_connections_active'' (int (holders p))]
           st)"
proof -
  have "pool (emit [PoolOp opname p query args] st) = Some p"
    using assms(1) by simp
  from instrument_db_call_eq [where func = func and st = st and w = w
      and operation = operation, OF assms(1-4) this assms(5)]
  show ?thesis
    by (simp add: emit_emit)
qed


lemma fetchrow_eq:
  assumes "pool st = Some p"
    and "mset (db_operations_total_labelnames D) = mset [''operation'', ''status'']"
    and "mset (db_query_duration_seconds_labelnames D) = mset [''operation'']"
  shows "fetchrow D w query args st =
     ((case fetchrow_result w (trace st) of
         Inl m \<Rightarrow> Inl (DbError m) | Inr r \<Rightarrow> Inr (row_dict r)),
      emit
        [PoolOp ''fetchrow'' p query args,
         CounterInc ''db_operations_total''
           [(''operation'', LStr ''select''),
            (''status'', LStr (case fetchrow_result w (trace st) of
                                Inl m \<Rightarrow> ''error'' | Inr r \<Rightarrow> ''success''))],
         HistObserve ''db_query_duration_seconds'' [(''operation'', LStr ''select'')]
           (perf_counter w
              (trace st @
               [PoolOp ''fetchrow'' p query args,
                CounterInc ''db_operations_total''
                  [(''operation'', LStr ''select''),
                   (''status'', LStr (case fetchrow_result w (trace st) of
                                       Inl m \<Rightarrow> ''error'' | Inr r \<Rightarrow> ''success''))]])
            - perf_counter w (trace st)),
         GaugeSet ''db_connections_active'' (int (holders p))]
        st)"
proof (cases "fetchrow_result w (trace st)")
  case (Inl m)
  then have "pool_fetchrow w p query args st =
      (Inl (DbError m), emit [PoolOp ''fetchrow'' p query args] st)"
    by (simp add: pool_fetchrow_def)
  from instrument_pool_op [where func = "pool_fetchrow w p query args" and w = w
      and operation = "''select''", OF assms this] Inl assms(1) show ?thesis
    by (simp add: fetchrow_def and_then_def)
next
  case (Inr r)
  then have "pool_fetchrow w p query args st =
      (Inr r, emit [PoolOp ''fetchrow'' p query args] st)"
    by (simp add: pool_fetchrow_def)
  from instrument_pool_op [where func = "pool_fetchrow w p query args" and w = w
      and operation = "''select''", OF assms this] Inr assms(1) show ?thesis
    by (simp add: fetchrow_def and_then_def return_def)
qed

lemma execute_delete_eq:
  assumes "pool st = Some p"
    and "mset (db_operations_total_labelnames D) = mset [''operation'', ''status'']"
    and "mset (db_query_duration_seconds_labelnames D) = mset [''operation'']"
  shows "execute D w ''DELETE FROM user_data WHERE id = $1'' args st =
     ((case execute_result w (trace st) of Inl m \<Rightarrow> Inl (DbError m) | Inr s \<Rightarrow> Inr s),
      emit
        [PoolOp ''execute'' p ''DELETE FROM user_data WHERE id = $1'' args,
         CounterInc ''db_operations_total''
           [(''operation'', LStr ''delete''),
            (''status'', LStr (case execute_result w (trace st) of
                                Inl m \<Rightarrow> ''error'' | Inr s \<Rightarrow> ''success''))],
         HistObserve ''db_query_duration_seconds'' [(''operation'', LStr ''delete'')]
           (perf_counter w
              (trace st @
               [PoolOp ''execute'' p ''DELETE FROM user_data WHERE id = $1'' args,
                CounterInc ''db_operations_total''
                  [(''operation'', LStr ''delete''),
                   (''status'', LStr (case execute_result w (trace st) of
                                       Inl m \<Rightarrow> ''error'' | Inr s \<Rightarrow> ''success''))]])
            - perf_counter w (trace st)),
         GaugeSet ''db_connections_active'' (int (holders p))]
        st)"
proof (cases "execute_result w (trace st)")
  case (Inl m)
  then have "pool_execute w p ''DELETE FROM user_data WHERE id = $1'' args st =
      (Inl (DbError m), emit [PoolOp ''execute'' p ''DELETE FROM user_data WHERE id = $1'' args] st)"
    by (simp add: pool_execute_def)
  from instrument_pool_op [where func = "pool_execute w p ''DELETE FROM user_data WHERE id = $1'' args"
      and w = w and operation = "''delete''", OF assms this] Inl assms(1) show ?thesis
    by (simp add: execute_def delete_operation)
next
  case (Inr s)
  then have "pool_execute w p ''DELETE FROM user_data WHERE id = $1'' args st =
      (Inr s, emit [PoolOp ''execute'' p ''DELETE FROM user_data WHERE id = $1'' args] st)"
    by (simp add: pool_execute_def)
  from instrument_pool_op [where func = "pool_execute w p ''DELETE FROM user_data WHERE id = $1'' args"
      and w = w and operation = "''delete''", OF assms this] Inr assms(1) show ?thesis
    by (simp add: execute_def delete_operation)
qed

lemma create_data_trace:
  assumes "pool st = Some p"
    and "mset (db_operations_total_labelnames D) = mset [''operation'', ''status'']"
    and "mset (db_query_duration_seconds_labelnames D) = mset [''operation'']"
  shows "\<exists>d. trace (snd (create_data D w item req st)) =
           trace st @
           [PoolOp ''fetchrow'' p insert_query (item_args item),
            CounterInc ''db_operations_total''
              [(''operation'', LStr ''select''),
               (''status'', LStr (case fetchrow_result w (trace st) of
                                   Inl m \<Rightarrow> ''error'' | Inr r \<Rightarrow> ''success''))],
            HistObserve ''db_query_duration_seconds'' [(''operation'', LStr ''select'')] d,
            GaugeSet ''db_connections_active'' (int (holders p)),
            CounterInc ''db_operations_total''
              [(''operation'', LStr ''create''),
               (''status'', LStr (case fst (create_data D w item req st) of
                                   Inl e \<Rightarrow> ''error'' | Inr resp \<Rightarrow> ''success''))]]"
proof -
  have inc: "\<And>x y s. counter_inc ''db_operations_total'' (db_operations_total_labelnames D)
                 [(''operation'', x), (''status'', y)] s =
               (Inr (), emit [CounterInc ''db_operations_total''
                                [(''operation'', x), (''status'', y)]] s)"
    using assms(2) by (simp add: counter_inc_accepted labels_accepted_db_counter)
  show ?thesis
    by (cases "fetchrow_result w (trace st)")
       (auto simp: create_data_def create_data_body_def fetchrow_eq [OF assms] inc
          try_except_def and_then_def raise_def return_def row_dict_def
          split: option.splits)
qed

lemma delete_data_trace:
  assumes "pool st = Some p"
    and "mset (db_operations_total_labelnames D) = mset [''operation'', ''status'']"
    and "mset (db_query_duration_seconds_labelnames D) = mset [''operation'']"
  shows "\<exists>d. trace (snd (delete_data D w item_id st)) =
           trace st @
           [PoolOp ''execute'' p ''DELETE FROM user_data WHERE id = $1'' [VInt item_id],
            CounterInc ''db_operations_total''
              [(''operation'', LStr ''delete''),
               (''status'', LStr (case execute_result w (trace st) of
                                   Inl m \<Rightarrow> ''error'' | Inr s \<Rightarrow> ''success''))],
            HistObserve ''db_query_duration_seconds'' [(''operation'', LStr ''delete'')] d,
            GaugeSet ''db_connections_active'' (int (holders p))] @
           (case execute_result w (trace st) of
              Inl m \<Rightarrow> [CounterInc ''db_operations_total''
                          [(''operation'', LStr ''delete''), (''status'', LStr ''error'')]]
            | Inr s \<Rightarrow> [])"
proof -
  have inc: "\<And>x y s. counter_inc ''db_operations_total'' (db_operations_total_labelnames D)
                 [(''operation'', x), (''status'', y)] s =
               (Inr (), emit [CounterInc ''db_operations_total''
                                [(''operation'', x), (''status'', y)]] s)"
    using assms(2) by (simp add: counter_inc_accepted labels_accepted_db_counter)
  show ?thesis
    by (cases "execute_result w (trace st)")
       (auto simp: delete_data_def execute_delete_eq [OF assms] inc
          try_except_def and_then_def raise_def return_def)
qed

lemma example_decl_db:
  "mset (db_operations_total_labelnames example_decl) = mset [''operation'', ''status'']"
  "mset (db_query_duration_seconds_labelnames example_decl) = mset [''operation'']"
  by (simp_all add: example_decl_def)


lemma serving_pool: "pool serving_state = Some example_pool"
  by (simp add: serving_state_def)

lemma create_data_example:
  "create_data example_decl reachable_world example_item post_request serving_state =
     (Inr \<lparr>status_code = 201, background = [(post_request, 201, 4)]\<rparr>,
      emit
        [PoolOp ''fetchrow'' example_pool insert_query (item_args example_item),
         CounterInc ''db_operations_total''
           [(''operation'', LStr ''select''), (''status'', LStr ''success'')],
         HistObserve ''db_query_duration_seconds'' [(''operation'', LStr ''select'')] 2,
         GaugeSet ''db_connections_active'' 20,
         CounterInc ''db_operations_total''
           [(''operation'', LStr ''create''), (''status'', LStr ''success'')]]
        serving_state)"
proof -
  have t: "trace serving_state = []"
    by (simp add: serving_state_def)
  have inc: "\<And>x y s. counter_inc ''db_operations_total''
                 (db_operations_total_labelnames example_decl)
                 [(''operation'', x), (''status'', y)] s =
               (Inr (), emit [CounterInc ''db_operations_total''
                                [(''operation'', x), (''status'', y)]] s)"
    by (simp add: counter_inc_accepted labels_accepted_db_counter example_decl_db)
  show ?thesis
    by (simp add: create_data_def create_data_body_def
        fetchrow_eq [OF serving_pool example_decl_db] inc t
        try_except_def and_then_def raise_def return_def row_dict_def emit_emit
        reachable_world_def example_pool_def)
qed












text \<open>
  Claim C4, as amended. With a pool in place and the DB metrics declared with the label
  names the code passes, the executor increments the operation counter exactly once for
  the one DB call a handler makes, labelled with the operation kind and the outcome of
  the call. The handlers add an increment of their own after it: \<open>create_data\<close> always,
  under the operation \<^verbatim>\<open>create\<close> and with the outcome of the request; \<open>delete_data\<close> under
  \<^verbatim>\<open>delete\<close> and \<^verbatim>\<open>error\<close>, when and only when the call raised.
\<close>

theorem handlers_increment_too:
  assumes "pool st = Some p"
    and "mset (db_operations_total_labelnames D) = mset [''operation'', ''status'']"
    and "mset (db_query_duration_seconds_labelnames D) = mset [''operation'']"
  shows "(\<exists>d. trace (snd (create_data D w item req st)) =
           trace st @
           [PoolOp ''fetchrow'' p insert_query (item_args item),
            CounterInc ''db_operations_total''
              [(''operation'', LStr ''select''),
               (''status'', LStr (case fetchrow_result w (trace st) of
                                   Inl m \<Rightarrow> ''error'' | Inr r \<Rightarrow> ''success''))],
            HistObserve ''db_query_duration_seconds'' [(''operation'', LStr ''select'')] d,
            GaugeSet ''db_connections_active'' (int (holders p)),
            CounterInc ''db_operations_total''
              [(''operation'', LStr ''create''),
               (''status'', LStr (case fst (create_data D w item req st) of
                                   Inl e \<Rightarrow> ''error'' | Inr resp \<Rightarrow> ''success''))]]) \<and>
         (\<exists>d. trace (snd (delete_data D w item_id st)) =
           trace st @
           [PoolOp ''execute'' p ''DELETE FROM user_data WHERE id = $1'' [VInt item_id],
            CounterInc ''db_operations_total''
              [(''operation'', LStr ''delete''),
               (''status'', LStr (case execute_result w (trace st) of
                                   Inl m \<Rightarrow> ''error'' | Inr s \<Rightarrow> ''success''))],
            HistObserve ''db_query_duration_seconds'' [(''operation'', LStr ''delete'')] d,
            GaugeSet ''db_connections_active'' (int (holders p))] @
           (case execute_result w (trace st) of
              Inl m \<Rightarrow> [CounterInc ''db_operations_total''
                          [(''operation'', LStr ''delete''), (''status'', LStr ''error'')]]
            | Inr s \<Rightarrow> []))"
  using create_data_trace [OF assms] delete_data_trace [OF assms] by blast

theorem handlers_increment_too_witness:
  "pool serving_state = Some example_pool \<and>
   mset (db_operations_total_labelnames example_decl) = mset [''operation'', ''status''] \<and>
   mset (db_query_duration_seconds_labelnames example_decl) = mset [''operation''] \<and>
   (\<exists>d. trace (snd (delete_data example_decl unreachable_world 42 serving_state)) =
      [PoolOp ''execute'' example_pool ''DELETE FROM user_data WHERE id = $1'' [VInt 42],
       CounterInc ''db_operations_total''
         [(''operation'', LStr ''delete''), (''status'', LStr ''error'')],
       HistObserve ''db_query_duration_seconds'' [(''operation'', LStr ''delete'')] d,
       GaugeSet ''db_connections_active'' 20,
       CounterInc ''db_operations_total''
         [(''operation'', LStr ''delete''), (''status'', LStr ''error'')]])"
proof -
  have r: "\<And>h. execute_result unreachable_world h = Inl ''connection refused''"
    by (simp add: unreachable_world_def)
  have t: "trace serving_state = []" and h: "int (holders example_pool) = 20"
    by (simp_all add: serving_state_def example_pool_def)
  from handlers_increment_too [OF serving_pool example_decl_db,
      of unreachable_world example_item post_request 42, THEN conjunct2]
  have "\<exists>d. trace (snd (delete_data example_decl unreachable_world 42 serving_state)) =
      [PoolOp ''execute'' example_pool ''DELETE FROM user_data WHERE id = $1'' [VInt 42],
       CounterInc ''db_operations_total''
         [(''operation'', LStr ''delete''), (''status'', LStr ''error'')],
       HistObserve ''db_query_duration_seconds'' [(''operation'', LStr ''delete'')] d,
       GaugeSet ''db_connections_active'' 20,
       CounterInc ''db_operations_total''
         [(''operation'', LStr ''delete''), (''status'', LStr ''error'')]]"
    by (simp add: r t h)
  with serving_pool example_decl_db show ?thesis
    by blast
qed

text \<open>
  Claim C4 as stated fails: a successful \<^verbatim>\<open>POST /api/data\<close> makes one DB call and
  increments the operation counter twice, once in the executor and once in the handler.
\<close>

theorem handlers_increment_too_counterexample:
  "trace (snd (create_data example_decl reachable_world example_item post_request
                 serving_state)) =
     [PoolOp ''fetchrow'' example_pool insert_query (item_args example_item),
      CounterInc ''db_operations_total''
        [(''operation'', LStr ''select''), (''status'', LStr ''success'')],
      HistObserve ''db_query_duration_seconds'' [(''operation'', LStr ''select'')] 2,
      GaugeSet ''db_connections_active'' 20,
      CounterInc ''db_operations_total''
        [(''operation'', LStr ''create''), (''status'', LStr ''success'')]]"
proof -
  have "trace (emit
        [PoolOp ''fetchrow'' example_pool insert_query (item_args example_item),
         CounterInc ''db_operations_total''
           [(''operation'', LStr ''select''), (''status'', LStr ''success'')],
         HistObserve ''db_query_duration_seconds'' [(''operation'', LStr ''select'')] 2,
         GaugeSet ''db_connections_active'' 20,
         CounterInc ''db_operations_total''
           [(''operation'', LStr ''create''), (''status'', LStr ''success'')]]
        serving_state) =
     [PoolOp ''fetchrow'' example_pool insert_query (item_args example_item),
      CounterInc ''db_operations_total''
        [(''operation'', LStr ''select''), (''status'', LStr ''success'')],
      HistObserve ''db_query_duration_seconds'' [(''operation'', LStr ''select'')] 2,
      GaugeSet ''db_connections_active'' 20,
      CounterInc ''db_operations_total''
        [(''operation'', LStr ''create''), (''status'', LStr ''success'')]]"
    by (simp add: serving_state_def)
  then show ?thesis
    by (simp only: create_data_example snd_conv)
qed

end
